theory Spec2Isabelle
  imports Complex_Main
begin

section \<open>Period tables and the table operations used by \<open>prepare_data\<close>\<close>

text \<open>
  A value of the product-category column: a string, an integer, or the missing value
  (NaN) of the table library. The source puts no type on the column and formats whatever
  it finds there; values of other types are outside this model.
\<close>

datatype category = Text string | Number int | Missing

text \<open>
  A period table (a data frame) is the list of its rows, in row order; a row carries the
  seven columns \<open>prepare_data\<close> reads. Numeric columns are exact reals: rounding of
  floating point numbers and missing numbers are outside this model.
\<close>

record transaction =
  client_id :: nat
  revenue :: real
  quantity :: real
  loss :: real
  product_id :: nat
  product_category :: category
  transaction_date :: string

type_synonym table = "transaction list"

text \<open>\<open>Series.unique()\<close>: the distinct values, in order of first appearance; the missing
  value counts as a value.\<close>

definition unique :: "'a list \<Rightarrow> 'a list" where
  "unique xs = rev (remdups (rev xs))"

text \<open>\<open>Series.mean()\<close>; the mean of an empty series (NaN in the source) does not occur
  below, because every client iterated over has a row.\<close>

definition mean :: "real list \<Rightarrow> real" where
  "mean xs = sum_list xs / real (length xs)"

text \<open>
  \<open>Series.value_counts(normalize=True)\<close>: missing entries are dropped first (the default
  \<open>dropna=True\<close>); every remaining distinct value gets its share of the remaining
  entries. Only \<open>.get\<close> is applied to the result, so the order of the index (by falling
  frequency in the library) is not modelled.
\<close>

definition value_counts_normalize :: "category list \<Rightarrow> (category \<times> real) list" where
  "value_counts_normalize xs =
     (let present = filter (\<lambda>v. v \<noteq> Missing) xs
      in map (\<lambda>v. (v, real (count_list present v) / real (length present))) (unique present))"

text \<open>
  \<open>Series.get(key, default)\<close>, looking the key up among the labels. (For an integer key
  on an index that holds no integer, versions of the library before 3.0 read the key as a
  position instead; the statements below about the values of the ratio columns are for
  category columns without integers, where the key is always a label.)
\<close>

definition series_get :: "('a \<times> real) list \<Rightarrow> 'a \<Rightarrow> real \<Rightarrow> real" where
  "series_get s k d = (case map_of s k of None \<Rightarrow> d | Some v \<Rightarrow> v)"

text \<open>
  A Python \<open>dict\<close> keeps its keys in insertion order; \<open>d[k] = v\<close> overwrites the value of a
  key that is present, in place, and appends a new key otherwise.
\<close>

fun dict_set :: "('k \<times> 'v) list \<Rightarrow> 'k \<Rightarrow> 'v \<Rightarrow> ('k \<times> 'v) list" where
  "dict_set [] k v = [(k, v)]"
| "dict_set ((k', v') # d) k v =
     (if k' = k then (k', v) # d else (k', v') # dict_set d k v)"

definition dict_values :: "('k \<times> 'v) list \<Rightarrow> 'v list" where
  "dict_values d = map snd d"

text \<open>
  The text an f-string puts for a value: a string as it is, an integer in decimal, the
  missing value as \<open>nan\<close>. Values of different types can have the same text.
\<close>

function digits :: "nat \<Rightarrow> string" where
  "digits n = (if n < 10 then [''0123456789'' ! n]
               else digits (n div 10) @ [''0123456789'' ! (n mod 10)])"
  by pat_completeness auto
termination
  by (relation "measure id") auto

definition format_category :: "category \<Rightarrow> string" where
  "format_category c =
     (case c of
        Text s \<Rightarrow> s
      | Number i \<Rightarrow> (if i < 0 then ''-'' @ digits (nat (- i)) else digits (nat i))
      | Missing \<Rightarrow> ''nan'')"

section \<open>\<open>prepare_data\<close>\<close>

text \<open>\<open>df1[df1['client_id'] == client_id]\<close>\<close>

definition rows_of_client :: "table \<Rightarrow> nat \<Rightarrow> table" where
  "rows_of_client df c = filter (\<lambda>r. client_id r = c) df"

text \<open>\<open>set(df['client_id'].unique())\<close>\<close>

definition clients_of :: "table \<Rightarrow> nat set" where
  "clients_of df = set (unique (map client_id df))"

text \<open>The dictionary literal with the eight aggregate features of one client.\<close>

definition base_features :: "table \<Rightarrow> (string \<times> real) list" where
  "base_features client_data =
     [(''total_revenue'', sum_list (map revenue client_data)),
      (''avg_transaction_value'', mean (map revenue client_data)),
      (''transaction_count'', real (length client_data)),
      (''unique_products'', real (length (unique (map product_id client_data)))),
      (''product_categories'', real (length (unique (map product_category client_data)))),
      (''avg_quantity_per_transaction'', mean (map quantity client_data)),
      (''total_loss'', sum_list (map loss client_data)),
      (''days_active'', real (length (unique (map transaction_date client_data))))]"

text \<open>The key \<open>f'category_ratio_{cat}'\<close>.\<close>

definition category_key :: "category \<Rightarrow> string" where
  "category_key cat = ''category_ratio_'' @ format_category cat"

text \<open>The inner loop over \<open>df1['product_category'].unique()\<close>, one dictionary store each.\<close>

fun add_category_ratios ::
  "(category \<times> real) list \<Rightarrow> (string \<times> real) list \<Rightarrow> category list \<Rightarrow> (string \<times> real) list" where
  "add_category_ratios category_counts feature_dict [] = feature_dict"
| "add_category_ratios category_counts feature_dict (cat # cats) =
     add_category_ratios category_counts
       (dict_set feature_dict (category_key cat) (series_get category_counts cat 0)) cats"

text \<open>The body of the outer loop: the feature row of one client.\<close>

definition client_features :: "table \<Rightarrow> nat \<Rightarrow> real list" where
  "client_features df1 c =
     (let client_data = rows_of_client df1 c;
          feature_dict = base_features client_data;
          category_counts = value_counts_normalize (map product_category client_data)
      in dict_values (add_category_ratios category_counts feature_dict
                        (unique (map product_category df1))))"

text \<open>
  The outer loop, appending one feature row and one label per client. Its first argument
  is the order in which Python iterates the set \<open>clients_period1\<close>, which the language
  leaves open: any duplicate-free enumeration of the set.
\<close>

fun prepare_loop ::
  "table \<Rightarrow> nat set \<Rightarrow> nat list \<Rightarrow> real list list \<Rightarrow> nat list \<Rightarrow> real list list \<times> nat list" where
  "prepare_loop df1 churners [] features labels = (features, labels)"
| "prepare_loop df1 churners (c # cs) features labels =
     prepare_loop df1 churners cs
       (features @ [client_features df1 c])
       (labels @ [if c \<in> churners then 1 else 0])"

definition prepare_data :: "nat list \<Rightarrow> table \<Rightarrow> table \<Rightarrow> real list list \<times> nat list" where
  "prepare_data ids df1 df2 =
     (let clients_period1 = clients_of df1;
          clients_period2 = clients_of df2;
          churners = clients_period1 - clients_period2
      in prepare_loop df1 churners ids [] [])"


text \<open>An iteration order of the set of period-1 clients.\<close>

definition iterates :: "nat list \<Rightarrow> table \<Rightarrow> bool" where
  "iterates ids df1 \<longleftrightarrow> distinct ids \<and> set ids = clients_of df1"

text \<open>Two small period tables: clients 1 and 2 in period 1, clients 2 and 3 in period 2.\<close>

definition period1_example :: table where
  "period1_example =
     [\<lparr>client_id = 1, revenue = 10, quantity = 1, loss = 0, product_id = 7,
        product_category = Text ''toys'', transaction_date = ''2024-01-01''\<rparr>,
      \<lparr>client_id = 2, revenue = 4, quantity = 2, loss = 1, product_id = 8,
        product_category = Text ''food'', transaction_date = ''2024-01-02''\<rparr>,
      \<lparr>client_id = 1, revenue = 6, quantity = 3, loss = 0, product_id = 8,
        product_category = Text ''food'', transaction_date = ''2024-01-02''\<rparr>]"

definition period2_example :: table where
  "period2_example =
     [\<lparr>client_id = 2, revenue = 5, quantity = 1, loss = 0, product_id = 7,
        product_category = Text ''toys'', transaction_date = ''2024-02-01''\<rparr>,
      \<lparr>client_id = 3, revenue = 5, quantity = 1, loss = 0, product_id = 7,
        product_category = Text ''toys'', transaction_date = ''2024-02-01''\<rparr>]"

text \<open>
  A period-1 table whose category column holds the integer 1 and the string \<open>1\<close>, and
  one whose only row has no category.
\<close>

definition mixed_example :: table where
  "mixed_example =
     [\<lparr>client_id = 1, revenue = 10, quantity = 1, loss = 0, product_id = 7,
        product_category = Number 1, transaction_date = ''2024-01-01''\<rparr>,
      \<lparr>client_id = 1, revenue = 6, quantity = 3, loss = 0, product_id = 8,
        product_category = Text ''1'', transaction_date = ''2024-01-02''\<rparr>]"


section \<open>The feature scaler\<close>

text \<open>
  Failures of the libraries and of the interpreter are values. Which exception is raised
  is kept; its message is not.
\<close>

datatype py_error = ValueError | TypeError | RuntimeError | IndexError

type_synonym matrix = "real list list"

text \<open>
  The state of a fitted \<open>StandardScaler\<close>: its attributes \<open>mean_\<close> and \<open>scale_\<close>, one entry
  per column.
\<close>

record standard_scaler =
  scaler_mean :: "real list"
  scaler_scale :: "real list"

definition column :: "matrix \<Rightarrow> nat \<Rightarrow> real list" where
  "column X j = map (\<lambda>r. r ! j) X"

definition col_mean :: "matrix \<Rightarrow> nat \<Rightarrow> real" where
  "col_mean X j = sum_list (column X j) / real (length X)"

text \<open>The variance the scaler uses divides by the number of rows (no Bessel correction).\<close>

definition col_var :: "matrix \<Rightarrow> nat \<Rightarrow> real" where
  "col_var X j = (\<Sum>x\<leftarrow>column X j. (x - col_mean X j)\<^sup>2) / real (length X)"

definition col_std :: "matrix \<Rightarrow> nat \<Rightarrow> real" where
  "col_std X j = sqrt (col_var X j)"

text \<open>A constant column is left unscaled: its scale is set to 1.\<close>

definition handle_zeros_in_scale :: "real \<Rightarrow> real" where
  "handle_zeros_in_scale s = (if s = 0 then 1 else s)"

text \<open>
  The input validation of the library: a two-dimensional array with at least one row and
  at least one column; anything else raises \<open>ValueError\<close>. A list of rows of unequal
  length is not such an array.
\<close>

definition check_array :: "matrix \<Rightarrow> bool" where
  "check_array X \<longleftrightarrow> X \<noteq> [] \<and> hd X \<noteq> [] \<and> (\<forall>r \<in> set X. length r = length (hd X))"

definition fit :: "matrix \<Rightarrow> py_error + standard_scaler" where
  "fit X =
     (if \<not> check_array X then Inl ValueError
      else let n = length (hd X)
           in Inr \<lparr>scaler_mean = map (col_mean X) [0..<n],
                   scaler_scale = map (\<lambda>j. handle_zeros_in_scale (col_std X j)) [0..<n]\<rparr>)"

definition scale_row :: "standard_scaler \<Rightarrow> real list \<Rightarrow> real list" where
  "scale_row s r = map (\<lambda>(x, m, d). (x - m) / d) (zip r (zip (scaler_mean s) (scaler_scale s)))"

text \<open>\<open>transform\<close> also rejects a matrix whose width differs from the fitted one.\<close>

definition transform :: "standard_scaler \<Rightarrow> matrix \<Rightarrow> py_error + matrix" where
  "transform s M =
     (if \<not> check_array M \<or> length (hd M) \<noteq> length (scaler_mean s) then Inl ValueError
      else Inr (map (scale_row s) M))"

text \<open>\<open>fit_transform\<close> is \<open>fit(X).transform(X)\<close>; it returns the matrix and leaves the
  scaler fitted.\<close>

definition fit_transform :: "matrix \<Rightarrow> py_error + (standard_scaler \<times> matrix)" where
  "fit_transform X =
     (case fit X of
        Inl e \<Rightarrow> Inl e
      | Inr s \<Rightarrow> (case transform s X of Inl e \<Rightarrow> Inl e | Inr Y \<Rightarrow> Inr (s, Y)))"

text \<open>A matrix with two rows and two columns of non-zero variance.\<close>

definition matrix_example :: matrix where
  "matrix_example = [[1, 10], [3, 6]]"

section \<open>Tensors and the layers of the classifier\<close>

text \<open>
  A tensor of rank one, two or three, as nested lists in row-major order. The batches the
  pipeline feeds to the model have rank two (rows of feature vectors).
\<close>

type_synonym vec = "real list"

datatype tensor = T1 vec | T2 matrix | T3 "matrix list"

fun shape :: "tensor \<Rightarrow> nat list" where
  "shape (T1 v) = [length v]"
| "shape (T2 m) = [length m, length (hd m)]"
| "shape (T3 b) = [length b, length (hd b), length (hd (hd b))]"

text \<open>
  The random generator as the sequence of keep-or-drop draws that the dropout layers will
  consume, next draw first. Which draws come up is the generator's business; any sequence
  can.
\<close>

type_synonym rng = "nat \<Rightarrow> bool"

definition advance :: "nat \<Rightarrow> rng \<Rightarrow> rng" where
  "advance n g = (\<lambda>i. g (i + n))"

text \<open>
  Dropout with probability \<open>p\<close>: the identity outside training mode and for \<open>p = 0\<close>;
  in training mode a dropped entry becomes 0 and a kept one is scaled by \<open>1 / (1 - p)\<close>.
\<close>

definition dropout_vec :: "real \<Rightarrow> bool \<Rightarrow> rng \<Rightarrow> vec \<Rightarrow> vec \<times> rng" where
  "dropout_vec p training g v =
     (if training \<and> p \<noteq> 0
      then (map (\<lambda>i. if g i then v ! i / (1 - p) else 0) [0..<length v], advance (length v) g)
      else (v, g))"

fun dropout_rows :: "real \<Rightarrow> bool \<Rightarrow> rng \<Rightarrow> matrix \<Rightarrow> matrix \<times> rng" where
  "dropout_rows p training g [] = ([], g)"
| "dropout_rows p training g (r # rs) =
     (let (r', g') = dropout_vec p training g r;
          (rs', g'') = dropout_rows p training g' rs
      in (r' # rs', g''))"

text \<open>\<open>nn.Linear\<close>: the weight has one row per output feature.\<close>

record linear =
  lin_weight :: matrix
  lin_bias :: vec

definition dot :: "vec \<Rightarrow> vec \<Rightarrow> real" where
  "dot u v = sum_list (map2 (*) u v)"

definition in_features :: "linear \<Rightarrow> nat" where
  "in_features l = length (hd (lin_weight l))"

definition linear_vec :: "linear \<Rightarrow> vec \<Rightarrow> vec" where
  "linear_vec l x = map2 (+) (map (\<lambda>w. dot w x) (lin_weight l)) (lin_bias l)"

text \<open>
  A linear layer acts on the last dimension of its input, which must have
  \<open>in_features\<close> entries; the library raises \<open>RuntimeError\<close> otherwise.
\<close>

definition linear_apply :: "linear \<Rightarrow> tensor \<Rightarrow> py_error + tensor" where
  "linear_apply l t =
     (case t of
        T1 v \<Rightarrow>
          if length v = in_features l then Inr (T1 (linear_vec l v)) else Inl RuntimeError
      | T2 m \<Rightarrow>
          if list_all (\<lambda>r. length r = in_features l) m
          then Inr (T2 (map (linear_vec l) m)) else Inl RuntimeError
      | T3 b \<Rightarrow>
          if list_all (list_all (\<lambda>r. length r = in_features l)) b
          then Inr (T3 (map (map (linear_vec l)) b)) else Inl RuntimeError)"

text \<open>\<open>nn.LayerNorm\<close> over the feature dimension, with the library's \<open>eps = 1e-5\<close>.\<close>

record layer_norm =
  norm_weight :: vec
  norm_bias :: vec

definition layer_norm_eps :: real where
  "layer_norm_eps = 1 / 100000"

definition layer_norm_vec :: "layer_norm \<Rightarrow> vec \<Rightarrow> vec" where
  "layer_norm_vec n x =
     (let mu = sum_list x / real (length x);
          var = (\<Sum>xi\<leftarrow>x. (xi - mu)\<^sup>2) / real (length x)
      in map (\<lambda>(xi, w, b). (xi - mu) / sqrt (var + layer_norm_eps) * w + b)
           (zip x (zip (norm_weight n) (norm_bias n))))"

text \<open>
  \<open>nn.MultiheadAttention\<close> used as self-attention on one sequence (a matrix with one row
  per position): the input projection yields query, key and value, each head attends with
  scaled dot products and a softmax over the positions, dropout is applied to the
  attention weights, and the concatenated heads go through the output projection.
\<close>

record multihead_attention =
  embed_dim :: nat
  num_heads :: nat
  in_proj :: linear
  out_proj :: linear
  attn_dropout :: real

definition softmax :: "vec \<Rightarrow> vec" where
  "softmax v = map (\<lambda>x. exp x / sum_list (map exp v)) v"

definition head_slice :: "nat \<Rightarrow> nat \<Rightarrow> vec \<Rightarrow> vec" where
  "head_slice dh t v = take dh (drop (t * dh) v)"

definition self_attention ::
  "multihead_attention \<Rightarrow> bool \<Rightarrow> rng \<Rightarrow> matrix \<Rightarrow> matrix \<times> rng" where
  "self_attention a training g X =
     (let E = embed_dim a; S = length X; h = num_heads a; dh = E div h;
          P = map (linear_vec (in_proj a)) X;
          Q = map (take E) P;
          K = map (\<lambda>p. take E (drop E p)) P;
          V = map (drop (2 * E)) P;
          attn = concat (map (\<lambda>t. map (\<lambda>i. softmax (map (\<lambda>j.
                   dot (head_slice dh t (Q ! i)) (head_slice dh t (K ! j)) / sqrt (real dh))
                   [0..<S])) [0..<S]) [0..<h]);
          (attn', g') = dropout_rows (attn_dropout a) training g attn;
          ctx = map (\<lambda>i. concat (map (\<lambda>t. map (\<lambda>c.
                   (\<Sum>j\<leftarrow>[0..<S]. attn' ! (t * S + i) ! j * head_slice dh t (V ! j) ! c))
                   [0..<dh]) [0..<h])) [0..<S]
      in (map (linear_vec (out_proj a)) ctx, g'))"

text \<open>
  \<open>nn.TransformerEncoderLayer\<close> with the defaults the source keeps (normalisation after
  each block, ReLU): attention block, residual and \<open>norm1\<close>; feed-forward block, residual
  and \<open>norm2\<close>; three dropouts besides the one inside the attention.
\<close>

record encoder_layer =
  self_attn :: multihead_attention
  linear1 :: linear
  linear2 :: linear
  norm1 :: layer_norm
  norm2 :: layer_norm
  dropout_p :: real

definition relu :: "real \<Rightarrow> real" where
  "relu x = max 0 x"

definition vec_add :: "vec \<Rightarrow> vec \<Rightarrow> vec" where
  "vec_add u v = map2 (+) u v"

definition encoder_layer_seq :: "encoder_layer \<Rightarrow> bool \<Rightarrow> rng \<Rightarrow> matrix \<Rightarrow> matrix \<times> rng" where
  "encoder_layer_seq L training g X =
     (let (A, g1) = self_attention (self_attn L) training g X;
          (A', g2) = dropout_rows (dropout_p L) training g1 A;
          X1 = map (layer_norm_vec (norm1 L)) (map2 vec_add X A');
          Hd = map (\<lambda>x. map relu (linear_vec (linear1 L) x)) X1;
          (Hd', g3) = dropout_rows (dropout_p L) training g2 Hd;
          F = map (linear_vec (linear2 L)) Hd';
          (F', g4) = dropout_rows (dropout_p L) training g3 F
      in (map (layer_norm_vec (norm2 L)) (map2 vec_add X1 F'), g4))"

text \<open>\<open>nn.TransformerEncoder\<close>: the layers in turn, on one sequence.\<close>

fun encoder_seq :: "encoder_layer list \<Rightarrow> bool \<Rightarrow> rng \<Rightarrow> matrix \<Rightarrow> matrix \<times> rng" where
  "encoder_seq [] training g X = (X, g)"
| "encoder_seq (L # Ls) training g X =
     (let (X', g') = encoder_layer_seq L training g X in encoder_seq Ls training g' X')"

text \<open>A batch of sequences, one after the other.\<close>

fun encoder_batch ::
  "encoder_layer list \<Rightarrow> bool \<Rightarrow> rng \<Rightarrow> matrix list \<Rightarrow> matrix list \<times> rng" where
  "encoder_batch Ls training g [] = ([], g)"
| "encoder_batch Ls training g (X # Xs) =
     (let (X', g') = encoder_seq Ls training g X;
          (Xs', g'') = encoder_batch Ls training g' Xs
      in (X' # Xs', g''))"

text \<open>
  The encoder accepts one sequence (rank two: positions by features) or, with
  \<open>batch_first\<close>, a batch of sequences (rank three); the feature dimension must be the
  model width, or the attention layer rejects the input. A rank-one tensor has no
  sequence dimension to read the length from: \<open>IndexError\<close>.
\<close>

definition transformer_encoder ::
  "nat \<Rightarrow> encoder_layer list \<Rightarrow> bool \<Rightarrow> rng \<Rightarrow> tensor \<Rightarrow> py_error + tensor" where
  "transformer_encoder d_model layers training g t =
     (case t of
        T1 v \<Rightarrow> Inl IndexError
      | T2 X \<Rightarrow>
          if list_all (\<lambda>r. length r = d_model) X
          then Inr (T2 (fst (encoder_seq layers training g X))) else Inl RuntimeError
      | T3 Xs \<Rightarrow>
          if list_all (list_all (\<lambda>r. length r = d_model)) Xs
          then Inr (T3 (fst (encoder_batch layers training g Xs))) else Inl RuntimeError)"

text \<open>
  \<open>x.mean(dim=1)\<close> averages over the second dimension and removes it: of a rank-two
  tensor it leaves one number per row; of a rank-three tensor one feature vector per
  batch entry. A rank-one tensor has no second dimension.
\<close>

definition mean_dim1 :: "tensor \<Rightarrow> py_error + tensor" where
  "mean_dim1 t =
     (case t of
        T1 v \<Rightarrow> Inl IndexError
      | T2 m \<Rightarrow> Inr (T1 (map (\<lambda>r. sum_list r / real (length r)) m))
      | T3 b \<Rightarrow> Inr (T2 (map (\<lambda>m. map (\<lambda>e. (\<Sum>r\<leftarrow>m. r ! e) / real (length m))
                                      [0..<length (hd m)]) b)))"

section \<open>\<open>ChurnTransformer\<close>\<close>

text \<open>
  The module: its three sub-modules, the width of the encoder, and the flag that
  \<open>model.train()\<close> and \<open>model.eval()\<close> set.
\<close>

record churn_transformer =
  embedding :: linear
  d_model :: nat
  transformer :: "encoder_layer list"
  classifier :: linear
  training :: bool

definition forward :: "churn_transformer \<Rightarrow> rng \<Rightarrow> tensor \<Rightarrow> py_error + tensor" where
  "forward self g x =
     (case linear_apply (embedding self) x of
        Inl e \<Rightarrow> Inl e
      | Inr x1 \<Rightarrow>
          (case transformer_encoder (d_model self) (transformer self) (training self) g x1 of
             Inl e \<Rightarrow> Inl e
           | Inr x2 \<Rightarrow>
               (case mean_dim1 x2 of
                  Inl e \<Rightarrow> Inl e
                | Inr x3 \<Rightarrow> linear_apply (classifier self) x3)))"

text \<open>
  What \<open>ChurnTransformer(input_dim, num_heads, dim_feedforward, num_layers, dropout)\<close>
  guarantees about the shapes of the parameters it creates.
\<close>

definition linear_shape :: "nat \<Rightarrow> nat \<Rightarrow> linear \<Rightarrow> bool" where
  "linear_shape n_in n_out l \<longleftrightarrow>
     length (lin_weight l) = n_out \<and> length (lin_bias l) = n_out \<and> 0 < n_out \<and>
     list_all (\<lambda>w. length w = n_in) (lin_weight l)"

definition constructed :: "nat \<Rightarrow> nat \<Rightarrow> churn_transformer \<Rightarrow> bool" where
  "constructed input_dim dim_feedforward self \<longleftrightarrow>
     linear_shape input_dim dim_feedforward (embedding self) \<and>
     d_model self = dim_feedforward \<and>
     linear_shape dim_feedforward 2 (classifier self)"

section \<open>\<open>predict_churn\<close>\<close>

text \<open>\<open>torch.softmax(outputs, dim=1)\<close> and the column selection \<open>probabilities[:, 1]\<close>.\<close>

definition softmax_dim1 :: "tensor \<Rightarrow> py_error + tensor" where
  "softmax_dim1 t =
     (case t of
        T1 v \<Rightarrow> Inl IndexError
      | T2 m \<Rightarrow> Inr (T2 (map softmax m))
      | T3 b \<Rightarrow> Inr (T3 (map (\<lambda>m. map (\<lambda>r. map (\<lambda>e.
                    exp (r ! e) / (\<Sum>r'\<leftarrow>m. exp (r' ! e))) [0..<length r]) m) b)))"

definition select_column1 :: "tensor \<Rightarrow> py_error + tensor" where
  "select_column1 t =
     (case t of
        T1 v \<Rightarrow> Inl IndexError
      | T2 m \<Rightarrow> if list_all (\<lambda>r. 1 < length r) m then Inr (T1 (map (\<lambda>r. r ! 1) m))
                else Inl IndexError
      | T3 b \<Rightarrow> if list_all (\<lambda>m. 1 < length m) b then Inr (T2 (map (\<lambda>m. m ! 1) b))
                else Inl IndexError)"

text \<open>
  \<open>predict_churn\<close>. The feature list stays empty: the source has only a comment where
  the rows would be built from \<open>client_data\<close>. The call \<open>model.eval()\<close> is the update of
  the flag; the model is returned with the result because the caller's object keeps it.
\<close>

definition predict_churn ::
  "churn_transformer \<Rightarrow> standard_scaler \<Rightarrow> 'c \<Rightarrow> rng \<Rightarrow> (py_error + tensor) \<times> churn_transformer" where
  "predict_churn model scaler client_data g =
     (let model = model\<lparr>training := False\<rparr>;
          features = []
      in (case transform scaler features of
            Inl e \<Rightarrow> Inl e
          | Inr features_scaled \<Rightarrow>
              (case forward model g (T2 features_scaled) of
                 Inl e \<Rightarrow> Inl e
               | Inr outputs \<Rightarrow>
                   (case softmax_dim1 outputs of
                      Inl e \<Rightarrow> Inl e
                    | Inr probabilities \<Rightarrow> select_column1 probabilities)),
          model))"

text \<open>
  A small model to evaluate: input width 1, model width 2, one head, one layer, dropout
  1/10, as \<open>ChurnTransformer(1, num_heads=1, dim_feedforward=2, num_layers=1)\<close> builds it,
  with parameter values chosen for easy arithmetic.
\<close>

definition zeros :: "nat \<Rightarrow> vec" where
  "zeros n = replicate n 0"

definition example_layer :: encoder_layer where
  "example_layer =
     \<lparr>self_attn = \<lparr>embed_dim = 2, num_heads = 1,
                    in_proj = \<lparr>lin_weight = replicate 6 (zeros 2), lin_bias = zeros 6\<rparr>,
                    out_proj = \<lparr>lin_weight = replicate 2 (zeros 2), lin_bias = zeros 2\<rparr>,
                    attn_dropout = 1 / 10\<rparr>,
      linear1 = \<lparr>lin_weight = replicate 4 (zeros 2), lin_bias = zeros 4\<rparr>,
      linear2 = \<lparr>lin_weight = replicate 2 (zeros 4), lin_bias = [1, 0]\<rparr>,
      norm1 = \<lparr>norm_weight = [1, 1], norm_bias = [0, 0]\<rparr>,
      norm2 = \<lparr>norm_weight = [1, 0], norm_bias = [0, 0]\<rparr>,
      dropout_p = 1 / 10\<rparr>"

definition example_model :: churn_transformer where
  "example_model =
     \<lparr>embedding = \<lparr>lin_weight = [[0], [0]], lin_bias = [0, 0]\<rparr>,
      d_model = 2,
      transformer = [example_layer],
      classifier = \<lparr>lin_weight = [[1, 0], [0, 1]], lin_bias = [0, 0]\<rparr>,
      training = True\<rparr>"

text \<open>Two states of the random generator: every draw keeps, and every draw drops.\<close>

definition keep_all :: rng where
  "keep_all = (\<lambda>i. True)"

definition drop_all :: rng where
  "drop_all = (\<lambda>i. False)"

section \<open>The training loop\<close>

text \<open>
  Parameter tensors live in a store and are updated in place by the optimizer. A module
  knows its parameters by name; \<open>model.state_dict()\<close> builds a fresh ordered dictionary
  from the names to tensors that share the storage of the parameters, and \<open>.copy()\<close> on a
  dictionary is a shallow copy: a new dictionary holding the same tensors. So both are
  lists of names with the addresses of the parameters themselves.
\<close>

type_synonym addr = nat
type_synonym 'v store = "addr \<Rightarrow> 'v"
type_synonym state_dict = "(string \<times> addr) list"

definition state_dict_of :: "state_dict \<Rightarrow> state_dict" where
  "state_dict_of parameters = map (\<lambda>(name, a). (name, a)) parameters"

definition dict_copy :: "('k \<times> 'a) list \<Rightarrow> ('k \<times> 'a) list" where
  "dict_copy d = map (\<lambda>(k, a). (k, a)) d"

definition read_params :: "'v store \<Rightarrow> state_dict \<Rightarrow> 'v list" where
  "read_params st parameters = map (\<lambda>(name, a). st a) parameters"

text \<open>The in-place update of the parameters, as \<open>optimizer.step()\<close> does it.\<close>

fun write_params :: "state_dict \<Rightarrow> 'v list \<Rightarrow> 'v store \<Rightarrow> 'v store" where
  "write_params ((name, a) # ps) (v # vs) st = write_params ps vs (st(a := v))"
| "write_params ps vs st = st"

text \<open>
  \<open>model.load_state_dict(d)\<close> copies, for every parameter, the content of the tensor
  that \<open>d\<close> holds under its name into the parameter. It rejects what is not a
  dictionary (\<open>None\<close>) and a dictionary that lacks a name.
\<close>

fun load_params :: "state_dict \<Rightarrow> state_dict \<Rightarrow> 'v store \<Rightarrow> py_error + 'v store" where
  "load_params [] d st = Inr st"
| "load_params ((name, a) # ps) d st =
     (case map_of d name of
        None \<Rightarrow> Inl RuntimeError
      | Some b \<Rightarrow> load_params ps d (st(a := st b)))"

definition load_state_dict ::
  "state_dict \<Rightarrow> state_dict option \<Rightarrow> 'v store \<Rightarrow> py_error + 'v store" where
  "load_state_dict parameters d st =
     (case d of None \<Rightarrow> Inl TypeError | Some d' \<Rightarrow> load_params parameters d' st)"

text \<open>
  The two passes of an epoch are parameters of the loop. \<open>train_pass\<close> is the loop over
  the shuffled training batches in training mode (forward, loss, backward, optimizer
  step): from the state of optimizer, loader and random generator and the current
  parameter values to the new state and the values the optimizer has written.
  \<open>validate\<close> is the loop over the validation batches in evaluation mode, up to the
  accuracy: from the parameter values to the summed validation loss. Either can raise.
\<close>

record ('o, 'v) passes =
  train_pass :: "'o \<Rightarrow> 'v list \<Rightarrow> py_error + ('o \<times> 'v list)"
  validate :: "'v list \<Rightarrow> py_error + real"

text \<open>
  The variables of the loop. \<open>best_val_loss\<close> starts as \<open>float('inf')\<close>, here \<open>None\<close>.
  \<open>history\<close> is not in the source: it records, for the statements below, the parameter
  values each validation ran on and the loss it measured.
\<close>

record ('o, 'v) train_state =
  store :: "'v store"
  opt :: 'o
  best_val_loss :: "real option"
  best_model :: "state_dict option"
  history :: "('v list \<times> real) list"

text \<open>\<open>val_loss < best_val_loss\<close>\<close>

definition improves :: "real \<Rightarrow> real option \<Rightarrow> bool" where
  "improves val_loss best = (case best of None \<Rightarrow> True | Some b \<Rightarrow> val_loss < b)"

definition epoch_step ::
  "('o, 'v) passes \<Rightarrow> state_dict \<Rightarrow> ('o, 'v) train_state \<Rightarrow> py_error + ('o, 'v) train_state" where
  "epoch_step P parameters s =
     (case train_pass P (opt s) (read_params (store s) parameters) of
        Inl e \<Rightarrow> Inl e
      | Inr (opt', values) \<Rightarrow>
          (let st = write_params parameters values (store s) in
           case validate P (read_params st parameters) of
             Inl e \<Rightarrow> Inl e
           | Inr val_loss \<Rightarrow>
               (let s1 = s\<lparr>store := st, opt := opt',
                           history := history s @ [(read_params st parameters, val_loss)]\<rparr>
                in if improves val_loss (best_val_loss s)
                   then Inr (s1\<lparr>best_val_loss := Some val_loss,
                                best_model := Some (dict_copy (state_dict_of parameters))\<rparr>)
                   else Inr s1)))"

text \<open>\<open>for epoch in range(epochs)\<close>\<close>

fun epochs_loop ::
  "('o, 'v) passes \<Rightarrow> state_dict \<Rightarrow> nat \<Rightarrow> ('o, 'v) train_state \<Rightarrow> py_error + ('o, 'v) train_state" where
  "epochs_loop P parameters 0 s = Inr s"
| "epochs_loop P parameters (Suc n) s =
     (case epoch_step P parameters s of
        Inl e \<Rightarrow> Inl e
      | Inr s' \<Rightarrow> epochs_loop P parameters n s')"

text \<open>
  The training loop of \<open>train_churn_model\<close> with the final \<open>load_state_dict\<close>, from the
  point where loaders, model and optimizer exist. The returned model is the returned
  store, read at the parameters.
\<close>

definition training_loop ::
  "('o, 'v) passes \<Rightarrow> state_dict \<Rightarrow> 'v store \<Rightarrow> 'o \<Rightarrow> nat \<Rightarrow> py_error + ('o, 'v) train_state" where
  "training_loop P parameters st0 opt0 epochs =
     (case epochs_loop P parameters epochs
             \<lparr>store = st0, opt = opt0, best_val_loss = None, best_model = None, history = []\<rparr> of
        Inl e \<Rightarrow> Inl e
      | Inr s \<Rightarrow>
          (case load_state_dict parameters (best_model s) (store s) of
             Inl e \<Rightarrow> Inl e
           | Inr st \<Rightarrow> Inr (s\<lparr>store := st\<rparr>)))"








text \<open>
  What holds of the loop variables after any number of epochs: before the first epoch
  there is neither a best loss nor a snapshot; afterwards the best loss is the least loss
  measured so far and the snapshot is the dictionary of the parameters; every loss in the
  history was measured on the parameter values recorded with it; and the last entry holds
  the current parameter values.
\<close>

definition loop_invariant :: "('o, 'v) passes \<Rightarrow> state_dict \<Rightarrow> ('o, 'v) train_state \<Rightarrow> bool" where
  "loop_invariant P ps s \<longleftrightarrow>
     (history s = [] \<longrightarrow> best_val_loss s = None \<and> best_model s = None) \<and>
     (history s \<noteq> [] \<longrightarrow>
        best_val_loss s = Some (Min (snd ` set (history s))) \<and> best_model s = Some ps) \<and>
     (\<forall>h \<in> set (history s). validate P (fst h) = Inr (snd h)) \<and>
     (history s \<noteq> [] \<longrightarrow> fst (last (history s)) = read_params (store s) ps)"

section \<open>Properties of the table operations\<close>

lemma set_unique: "set (unique xs) = set xs"
  by (simp add: unique_def)

lemma distinct_unique: "distinct (unique xs)"
  by (simp add: unique_def)

lemma length_unique: "length (unique xs) = card (set xs)"
  using distinct_card[OF distinct_unique, of xs] by (simp add: set_unique)


lemma dict_set_keys: "fst ` set (dict_set d k v) = insert k (fst ` set d)"
proof (induction d)
  case Nil
  show ?case by simp
next
  case (Cons p d)
  obtain k' v' where p: "p = (k', v')" by (cases p)
  show ?case
  proof (cases "k' = k")
    case True
    then show ?thesis by (simp add: p)
  next
    case False
    then show ?thesis using Cons.IH by (simp add: p insert_commute)
  qed
qed

lemma dict_set_length:
  "length (dict_set d k v) = (if k \<in> fst ` set d then length d else Suc (length d))"
proof (induction d)
  case Nil
  show ?case by simp
next
  case (Cons p d)
  obtain k' v' where p: "p = (k', v')" by (cases p)
  show ?case
  proof (cases "k' = k")
    case True
    then show ?thesis by (simp add: p)
  next
    case False
    then have "k \<in> fst ` set (p # d) \<longleftrightarrow> k \<in> fst ` set d" by (auto simp: p)
    then show ?thesis using Cons.IH False by (simp add: p)
  qed
qed

lemma new_key_set:
  assumes "k \<notin> D"
  shows "insert k K - D = insert k (K - insert k D)"
  using assms by blast

lemma old_key_set:
  assumes "k \<in> D"
  shows "insert k K - D = K - insert k D"
  using assms by blast



section \<open>The feature rows of \<open>prepare_data\<close>\<close>

lemma prepare_loop_eq:
  "prepare_loop df1 ch ids fs ls =
     (fs @ map (client_features df1) ids, ls @ map (\<lambda>c. if c \<in> ch then 1 else 0) ids)"
  by (induction ids arbitrary: fs ls) simp_all



lemma card_category_keys: "card (category_key ` S) = card (format_category ` S)"
proof -
  have "category_key ` S = (\<lambda>s. ''category_ratio_'' @ s) ` format_category ` S"
    by (auto simp: category_key_def)
  moreover have "inj_on (\<lambda>s. ''category_ratio_'' @ s) (format_category ` S)"
    by (rule inj_onI) simp
  ultimately show ?thesis by (simp add: card_image)
qed

text \<open>No category key collides with one of the eight aggregate keys.\<close>

lemma base_keys_fresh: "category_key cat \<notin> fst ` set (base_features cd)"
  by (simp add: base_features_def category_key_def)

lemma length_base_features: "length (base_features cd) = 8"
  by (simp add: base_features_def)

text \<open>Every store of the inner loop either overwrites a column or appends one.\<close>

lemma add_category_ratios_length:
  "length (add_category_ratios cc d cats) =
     length d + card (category_key ` set cats - fst ` set d)"
proof (induction cats arbitrary: d)
  case Nil
  show ?case by simp
next
  case (Cons cat cats)
  define k where "k = category_key cat"
  define d' where "d' = dict_set d k (series_get cc cat 0)"
  define K where "K = category_key ` set cats"
  define D where "D = fst ` set d"
  have step: "add_category_ratios cc d (cat # cats) = add_category_ratios cc d' cats"
    by (simp add: d'_def k_def)
  have keys: "category_key ` set (cat # cats) = insert k K"
    by (simp add: K_def k_def)
  have ih: "length (add_category_ratios cc d' cats) = length d' + card (K - insert k D)"
    unfolding K_def D_def d'_def using Cons.IH[of "dict_set d k (series_get cc cat 0)"]
    by (simp only: dict_set_keys)
  have len: "length d' = (if k \<in> D then length d else Suc (length d))"
    unfolding d'_def D_def by (rule dict_set_length)
  have fin: "finite (K - insert k D)"
    unfolding K_def by simp
  have card: "card (insert k K - D) = (if k \<in> D then card (K - insert k D)
                                        else Suc (card (K - insert k D)))"
  proof (cases "k \<in> D")
    case True
    show ?thesis unfolding old_key_set[OF True] using True by simp
  next
    case False
    have "k \<notin> K - insert k D" by blast
    with fin have "card (insert k (K - insert k D)) = Suc (card (K - insert k D))"
      by (rule card_insert_disjoint)
    then show ?thesis unfolding new_key_set[OF False] using False by simp
  qed
  have "length (add_category_ratios cc d (cat # cats)) = length d + card (insert k K - D)"
    unfolding step ih len card by (cases "k \<in> D") simp_all
  then show ?case unfolding keys D_def .
qed

lemma length_client_features:
  "length (client_features df1 c) = 8 + card (category_key ` product_category ` set df1)"
proof -
  let ?cats = "unique (map product_category df1)"
  let ?base = "base_features (rows_of_client df1 c)"
  have "x \<notin> fst ` set ?base" if "x \<in> category_key ` set ?cats" for x
    using that base_keys_fresh[of _ "rows_of_client df1 c"] by (elim imageE) simp
  then have "category_key ` set ?cats \<inter> fst ` set ?base = {}"
    by blast
  then have "category_key ` set ?cats - fst ` set ?base = category_key ` set ?cats"
    by (rule Diff_triv)
  moreover have "set ?cats = product_category ` set df1"
    by (simp add: set_unique)
  ultimately have "card (category_key ` set ?cats - fst ` set ?base)
                   = card (category_key ` product_category ` set df1)"
    by simp
  moreover have "length (client_features df1 c)
                 = length ?base + card (category_key ` set ?cats - fst ` set ?base)"
    unfolding client_features_def Let_def dict_values_def length_map
    by (rule add_category_ratios_length)
  ultimately show ?thesis by (simp only: length_base_features)
qed











lemma category_set_period1_example:
  "product_category ` set period1_example = {Text ''toys'', Text ''food''}"
  by (simp add: period1_example_def insert_commute)

lemma inj_period1_example:
  "inj_on format_category (product_category ` set period1_example)"
  by (simp add: category_set_period1_example format_category_def)



text \<open>The feature rows of the two tables with a mixed and with a missing category.\<close>

lemma mixed_example_row:
  "client_features mixed_example 1 = [16, 8, 2, 2, 2, 2, 0, 2, 1 / 2]"
  by (simp add: client_features_def Let_def mixed_example_def rows_of_client_def
      base_features_def mean_def unique_def value_counts_normalize_def series_get_def
      category_key_def format_category_def dict_values_def)




text \<open>
  Claim C4 says that every row is 8 plus the number of distinct period-1 categories wide.
  The ratio columns are dictionary entries under the formatted category, and the integer
  1 and the string \<open>1\<close> format alike: with both in the category column there are two
  distinct categories and one ratio column, so the row is 9 wide, not 10.
\<close>

theorem prepare_data_width_counterexample:
  "iterates [1] mixed_example \<and>
   fst (prepare_data [1] mixed_example period2_example) = [[16, 8, 2, 2, 2, 2, 0, 2, 1 / 2]] \<and>
   length (hd (fst (prepare_data [1] mixed_example period2_example))) = 9 \<and>
   card (product_category ` set mixed_example) = 2"
proof -
  have "iterates [1] mixed_example"
    by (simp add: iterates_def clients_of_def mixed_example_def set_unique)
  moreover have "fst (prepare_data [1] mixed_example period2_example)
                 = [client_features mixed_example 1]"
    by (simp add: prepare_data_def prepare_loop_eq)
  then have "fst (prepare_data [1] mixed_example period2_example)
             = [[16, 8, 2, 2, 2, 2, 0, 2, 1 / 2]]"
    by (simp only: mixed_example_row)
  moreover have "card (product_category ` set mixed_example) = 2"
    by (simp add: mixed_example_def)
  ultimately show ?thesis by simp
qed

text \<open>
  Claim C4, amended. All rows of the feature matrix returned by one call of
  \<open>prepare_data\<close> have the same width: 8 plus the number of distinct keys
  \<open>category_ratio_\<dots>\<close> that the category values of period 1 format to (a missing value
  in the column is one of these values). When no two of the values format alike, this is
  8 plus the number of distinct category values of period 1.
\<close>

theorem prepare_data_width_by_keys:
  "(\<forall>row \<in> set (fst (prepare_data ids df1 df2)).
      length row = 8 + card (category_key ` product_category ` set df1)) \<and>
   (inj_on format_category (product_category ` set df1) \<longrightarrow>
      (\<forall>row \<in> set (fst (prepare_data ids df1 df2)).
         length row = 8 + card (product_category ` set df1)))"
proof -
  have rows: "set (fst (prepare_data ids df1 df2)) = client_features df1 ` set ids"
    by (simp add: prepare_data_def prepare_loop_eq)
  have keys: "\<forall>row \<in> set (fst (prepare_data ids df1 df2)).
                length row = 8 + card (category_key ` product_category ` set df1)"
    unfolding rows by (simp add: length_client_features)
  have "card (category_key ` product_category ` set df1) = card (product_category ` set df1)"
    if "inj_on format_category (product_category ` set df1)"
    using that by (simp add: card_category_keys card_image)
  with keys show ?thesis by simp
qed

theorem prepare_data_width_by_keys_witness:
  "client_features period1_example 2
     \<in> set (fst (prepare_data [2, 1] period1_example period2_example)) \<and>
   inj_on format_category (product_category ` set period1_example) \<and>
   length (client_features period1_example 2) = 8 + card (product_category ` set period1_example) \<and>
   card (product_category ` set period1_example) = 2"
proof -
  have m: "client_features period1_example 2
             \<in> set (fst (prepare_data [2, 1] period1_example period2_example))"
    by (simp add: prepare_data_def prepare_loop_eq Let_def)
  have c: "card (product_category ` set period1_example) = 2"
    by (simp add: category_set_period1_example)
  from prepare_data_width_by_keys[of "[2, 1]" period1_example period2_example] m inj_period1_example
  have "length (client_features period1_example 2)
        = 8 + card (product_category ` set period1_example)"
    by blast
  with m c inj_period1_example show ?thesis by blast
qed




section \<open>Properties of the scaler\<close>

lemma sum_standardize:
  "sum_list (map (\<lambda>x. (x - m) / d) xs) = (sum_list xs - real (length xs) * m) / d"
  by (induction xs) (simp_all add: field_simps add_divide_distrib diff_divide_distrib)

lemma sumsq_standardize:
  "(\<Sum>x\<leftarrow>xs. ((x - m) / d)\<^sup>2) = (\<Sum>x\<leftarrow>xs. (x - m)\<^sup>2) / (d::real)\<^sup>2"
proof (induction xs)
  case Nil
  show ?case by simp
next
  case (Cons a xs)
  have "(\<Sum>x\<leftarrow>a # xs. ((x - m) / d)\<^sup>2) = ((a - m) / d)\<^sup>2 + (\<Sum>x\<leftarrow>xs. (x - m)\<^sup>2) / d\<^sup>2"
    using Cons.IH by simp
  also have "\<dots> = ((a - m)\<^sup>2 + (\<Sum>x\<leftarrow>xs. (x - m)\<^sup>2)) / d\<^sup>2"
    by (simp only: power_divide add_divide_distrib)
  finally show ?case by simp
qed

lemma scale_row_nth:
  assumes "length r = n" "length (scaler_mean s) = n" "length (scaler_scale s) = n" "j < n"
  shows "scale_row s r ! j = (r ! j - scaler_mean s ! j) / scaler_scale s ! j"
  using assms by (simp add: scale_row_def)

lemma length_scale_row:
  "length r = n \<Longrightarrow> length (scaler_mean s) = n \<Longrightarrow> length (scaler_scale s) = n \<Longrightarrow> length (scale_row s r) = n"
  by (simp add: scale_row_def)

lemma fit_Inr:
  assumes "fit X = Inr s"
  shows "check_array X" "length (scaler_mean s) = length (hd X)" "length (scaler_scale s) = length (hd X)"
    "\<And>j. j < length (hd X) \<Longrightarrow> scaler_mean s ! j = col_mean X j"
    "\<And>j. j < length (hd X) \<Longrightarrow> scaler_scale s ! j = handle_zeros_in_scale (col_std X j)"
  using assms by (auto simp: fit_def Let_def split: if_splits)

lemma fit_total: "check_array X \<Longrightarrow> \<exists>s. fit X = Inr s"
  by (simp add: fit_def Let_def)

lemma scale_row_fit:
  assumes "fit X = Inr s" and "length r = length (hd X)"
  shows "scale_row s r =
           map (\<lambda>j. (r ! j - col_mean X j) / handle_zeros_in_scale (col_std X j))
             [0..<length (hd X)]"
proof (rule nth_equalityI)
  show "length (scale_row s r) = length (map (\<lambda>j. (r ! j - col_mean X j) /
          handle_zeros_in_scale (col_std X j)) [0..<length (hd X)])"
    using assms fit_Inr(2,3)[OF assms(1)] by (simp add: length_scale_row)
next
  fix j assume "j < length (scale_row s r)"
  then have j: "j < length (hd X)"
    using assms fit_Inr(2,3)[OF assms(1)] by (simp add: scale_row_def)
  then show "scale_row s r ! j = map (\<lambda>j. (r ! j - col_mean X j) /
          handle_zeros_in_scale (col_std X j)) [0..<length (hd X)] ! j"
    using scale_row_nth[OF assms(2) fit_Inr(2,3)[OF assms(1)] j] fit_Inr(4,5)[OF assms(1) j]
    by simp
qed

lemma transform_fit:
  assumes "fit X = Inr s" and "check_array M" and "length (hd M) = length (hd X)"
  shows "transform s M =
           Inr (map (\<lambda>r. map (\<lambda>j. (r ! j - col_mean X j) / handle_zeros_in_scale (col_std X j))
                            [0..<length (hd X)]) M)"
proof -
  have "\<forall>r \<in> set M. length r = length (hd X)"
    using assms(2,3) by (simp add: check_array_def)
  then have "map (scale_row s) M =
      map (\<lambda>r. map (\<lambda>j. (r ! j - col_mean X j) / handle_zeros_in_scale (col_std X j))
                            [0..<length (hd X)]) M"
    using scale_row_fit[OF assms(1)] by simp
  then show ?thesis
    using assms(2,3) fit_Inr(2)[OF assms(1)] by (simp add: transform_def)
qed

lemma column_standardized:
  assumes "\<forall>r \<in> set X. length r = n" and "j < n"
  shows "column (map (\<lambda>r. map (\<lambda>j. (r ! j - mu j) / sd j) [0..<n]) X) j =
           map (\<lambda>x. (x - mu j) / sd j) (column X j)"
  using assms by (simp add: column_def)

lemma col_var_nonneg: "0 \<le> col_var X j"
  unfolding col_var_def
  by (intro divide_nonneg_nonneg sum_list_nonneg) auto

lemma length_column: "length (column X j) = length X"
  by (simp add: column_def)

lemma standardized_mean:
  assumes "X \<noteq> []"
  shows "sum_list (map (\<lambda>x. (x - col_mean X j) / d) (column X j)) / real (length X) = 0"
proof -
  have "real (length (column X j)) * col_mean X j = sum_list (column X j)"
    using assms by (simp add: col_mean_def length_column)
  then have "sum_list (map (\<lambda>x. (x - col_mean X j) / d) (column X j)) = 0"
    by (simp only: sum_standardize) simp
  then show ?thesis by simp
qed

lemma standardized_var:
  assumes "col_var X j \<noteq> 0"
  shows "(\<Sum>y\<leftarrow>map (\<lambda>x. (x - col_mean X j) / col_std X j) (column X j). (y - 0)\<^sup>2)
           / real (length X) = 1"
proof -
  have sq: "(col_std X j)\<^sup>2 = col_var X j"
    by (simp add: col_std_def col_var_nonneg)
  have "(\<Sum>y\<leftarrow>map (\<lambda>x. (x - col_mean X j) / col_std X j) (column X j). (y - 0)\<^sup>2)
        = (\<Sum>x\<leftarrow>column X j. ((x - col_mean X j) / col_std X j)\<^sup>2)"
    by (simp add: comp_def)
  also have "\<dots> = (\<Sum>x\<leftarrow>column X j. (x - col_mean X j)\<^sup>2) / col_var X j"
    by (simp only: sumsq_standardize sq)
  finally have "(\<Sum>y\<leftarrow>map (\<lambda>x. (x - col_mean X j) / col_std X j) (column X j). (y - 0)\<^sup>2)
           / real (length X)
         = (\<Sum>x\<leftarrow>column X j. (x - col_mean X j)\<^sup>2) / col_var X j / real (length X)"
    by (rule arg_cong)
  also have "\<dots> = col_var X j / col_var X j"
    unfolding col_var_def[of X j, symmetric] by (simp add: col_var_def)
  also have "\<dots> = 1" using assms by simp
  finally show ?thesis .
qed

lemma col_mean_standardized:
  assumes "X \<noteq> []" and "\<forall>r \<in> set X. length r = n" and "j < n"
  shows "col_mean (map (\<lambda>r. map (\<lambda>j. (r ! j - col_mean X j) / sd j) [0..<n]) X) j = 0"
proof -
  have "col_mean (map (\<lambda>r. map (\<lambda>j. (r ! j - col_mean X j) / sd j) [0..<n]) X) j
        = sum_list (map (\<lambda>x. (x - col_mean X j) / sd j) (column X j)) / real (length X)"
    unfolding col_mean_def[of "map _ X"] column_standardized[OF assms(2,3)] by simp
  then show ?thesis
    using standardized_mean[OF assms(1)] by simp
qed

lemma col_var_standardized:
  assumes "X \<noteq> []" and "\<forall>r \<in> set X. length r = n" and "j < n" and "col_var X j \<noteq> 0"
    and "sd j = col_std X j"
  shows "col_var (map (\<lambda>r. map (\<lambda>j. (r ! j - col_mean X j) / sd j) [0..<n]) X) j = 1"
proof -
  let ?Y = "map (\<lambda>r. map (\<lambda>j. (r ! j - col_mean X j) / sd j) [0..<n]) X"
  have m: "col_mean ?Y j = 0"
    using assms(1,2,3) by (rule col_mean_standardized)
  have c: "column ?Y j = map (\<lambda>x. (x - col_mean X j) / col_std X j) (column X j)"
    using column_standardized[OF assms(2,3), of "col_mean X" sd] assms(5) by simp
  have l: "length ?Y = length X" by simp
  show ?thesis
    unfolding col_var_def[of ?Y] m c l using standardized_var[OF assms(4)] .
qed

text \<open>
  Claim C6. For every feature matrix whose columns all have non-zero variance, fitting the
  scaler on the matrix succeeds, and transforming that same matrix with the fitted scaler
  succeeds and yields a matrix whose every column has mean 0 and standard deviation 1.
\<close>

theorem scaler_standardizes:
  assumes "check_array X" and "\<forall>j < length (hd X). col_var X j \<noteq> 0"
  shows "\<exists>s Y. fit X = Inr s \<and> transform s X = Inr Y \<and>
           (\<forall>j < length (hd X). col_mean Y j = 0 \<and> col_std Y j = 1)"
proof -
  let ?n = "length (hd X)"
  let ?sd = "\<lambda>j. handle_zeros_in_scale (col_std X j)"
  let ?Y = "map (\<lambda>r. map (\<lambda>j. (r ! j - col_mean X j) / ?sd j) [0..<?n]) X"
  obtain s where s: "fit X = Inr s"
    using fit_total[OF assms(1)] by blast
  have t: "transform s X = Inr ?Y"
    by (rule transform_fit[OF s assms(1) refl])
  have rows: "\<forall>r \<in> set X. length r = ?n" and ne: "X \<noteq> []"
    using assms(1) unfolding check_array_def by blast+
  have "col_mean ?Y j = 0 \<and> col_std ?Y j = 1" if j: "j < ?n" for j
  proof -
    have v: "col_var X j \<noteq> 0" using assms(2) j by simp
    then have hz: "?sd j = col_std X j"
      by (simp add: handle_zeros_in_scale_def col_std_def)
    have m: "col_mean ?Y j = 0"
      using ne rows j by (rule col_mean_standardized)
    have "col_var ?Y j = 1"
      using ne rows j v hz by (rule col_var_standardized)
    then have "col_std ?Y j = 1"
      unfolding col_std_def by simp
    with m show ?thesis by simp
  qed
  then have "\<forall>j < ?n. col_mean ?Y j = 0 \<and> col_std ?Y j = 1" by (intro allI impI)
  with s t have "fit X = Inr s \<and> transform s X = Inr ?Y \<and>
           (\<forall>j < ?n. col_mean ?Y j = 0 \<and> col_std ?Y j = 1)"
    by (intro conjI)
  then show ?thesis by (intro exI)
qed

lemma check_array_example: "check_array matrix_example"
  by (simp add: check_array_def matrix_example_def)

lemma col_var_example: "col_var matrix_example 0 = 1" "col_var matrix_example (Suc 0) = 4"
  by (simp_all add: col_var_def col_mean_def column_def matrix_example_def power2_eq_square)

lemma col_mean_example: "col_mean matrix_example 0 = 2" "col_mean matrix_example (Suc 0) = 8"
  by (simp_all add: col_mean_def column_def matrix_example_def)

lemma length_hd_example: "length (hd matrix_example) = 2"
  by (simp add: matrix_example_def)

lemma upt_2: "[0..<2] = [0, Suc 0]"
  by (simp add: upt_rec numeral_2_eq_2)

lemma fit_example:
  "fit matrix_example = Inr \<lparr>scaler_mean = [2, 8], scaler_scale = [1, 2]\<rparr>"
proof -
  have n: "length (hd matrix_example) = 2" by (simp add: matrix_example_def)
  show ?thesis
    using check_array_example
    by (simp add: fit_def Let_def n upt_2 col_mean_example col_std_def col_var_example
        handle_zeros_in_scale_def)
qed

lemma col_var_example_nonzero: "\<forall>j < length (hd matrix_example). col_var matrix_example j \<noteq> 0"
proof (intro allI impI)
  fix j assume "j < length (hd matrix_example)"
  then have "j = 0 \<or> j = Suc 0" by (auto simp: matrix_example_def)
  then show "col_var matrix_example j \<noteq> 0" using col_var_example by auto
qed

theorem scaler_standardizes_witness:
  "check_array matrix_example \<and>
   col_var matrix_example 0 \<noteq> 0 \<and> col_var matrix_example (Suc 0) \<noteq> 0 \<and>
   (\<exists>s Y. fit matrix_example = Inr s \<and> transform s matrix_example = Inr Y \<and>
      col_mean Y 0 = 0 \<and> col_std Y 0 = 1 \<and> col_mean Y (Suc 0) = 0 \<and> col_std Y (Suc 0) = 1)"
proof -
  obtain s Y where f: "fit matrix_example = Inr s" and t: "transform s matrix_example = Inr Y"
    and c: "\<forall>j < length (hd matrix_example). col_mean Y j = 0 \<and> col_std Y j = 1"
    using scaler_standardizes[OF check_array_example col_var_example_nonzero] by blast
  have "col_mean Y 0 = 0 \<and> col_std Y 0 = 1" "col_mean Y (Suc 0) = 0 \<and> col_std Y (Suc 0) = 1"
    using c by (simp_all add: length_hd_example)
  with f t have "\<exists>s Y. fit matrix_example = Inr s \<and> transform s matrix_example = Inr Y \<and>
      col_mean Y 0 = 0 \<and> col_std Y 0 = 1 \<and> col_mean Y (Suc 0) = 0 \<and> col_std Y (Suc 0) = 1"
    by blast
  then show ?thesis
    using check_array_example by (simp add: col_var_example)
qed

text \<open>
  Claim C8. The transform of a fitted scaler computes every entry from that entry and the
  mean and scale of its column in the fitting matrix \<open>X\<close>; no statistic of the transformed
  matrix \<open>M\<close> enters. On the fitting matrix itself it returns the matrix that
  \<open>fit_transform\<close> returns.
\<close>

theorem transform_uses_fitted_statistics:
  assumes "fit X = Inr s" and "check_array M" and "length (hd M) = length (hd X)"
  shows "transform s M =
           Inr (map (\<lambda>r. map (\<lambda>j. (r ! j - col_mean X j) / handle_zeros_in_scale (col_std X j))
                            [0..<length (hd X)]) M) \<and>
         (\<exists>Y. fit_transform X = Inr (s, Y) \<and> transform s X = Inr Y)"
proof -
  have X: "check_array X" by (rule fit_Inr(1)[OF assms(1)])
  have "\<exists>Y. transform s X = Inr Y"
    using transform_fit[OF assms(1) X refl] by (intro exI)
  then have "\<exists>Y. fit_transform X = Inr (s, Y) \<and> transform s X = Inr Y"
    using assms(1) by (auto simp: fit_transform_def)
  with transform_fit[OF assms] show ?thesis by (intro conjI)
qed

theorem transform_uses_fitted_statistics_witness:
  "fit matrix_example = Inr \<lparr>scaler_mean = [2, 8], scaler_scale = [1, 2]\<rparr> \<and>
   check_array [[5, 8]] \<and> length (hd [[5, 8 :: real]]) = length (hd matrix_example) \<and>
   transform \<lparr>scaler_mean = [2, 8], scaler_scale = [1, 2]\<rparr> [[5, 8]] = Inr [[3, 0]]"
proof -
  have c: "check_array [[5, 8]]" by (simp add: check_array_def)
  have l: "length (hd [[5, 8 :: real]]) = length (hd matrix_example)"
    by (simp add: matrix_example_def)
  have "transform \<lparr>scaler_mean = [2, 8], scaler_scale = [1, 2]\<rparr> [[5, 8]] = Inr [[3, 0]]"
    using transform_uses_fitted_statistics[OF fit_example c l]
    by (simp add: length_hd_example upt_2 col_mean_example col_std_def col_var_example
        handle_zeros_in_scale_def)
  with fit_example c l show ?thesis by (intro conjI)
qed

section \<open>Properties of the model and of \<open>predict_churn\<close>\<close>

lemma upt_Suc0: "[0..<Suc 0] = [0]" by simp

lemma emb: "linear_apply (embedding example_model) (T2 [[1], [2]]) = Inr (T2 [[0, 0], [0, 0]])"
  by (simp add: example_model_def linear_apply_def in_features_def linear_vec_def dot_def)

lemma sa_drop:
  "fst (self_attention (self_attn example_layer) True (\<lambda>i. False) [[0, 0], [0, 0]]) = [[0, 0], [0, 0]]"
  by (simp add: self_attention_def example_layer_def Let_def zeros_def linear_vec_def dot_def
      head_slice_def softmax_def dropout_vec_def upt_2 numeral_eq_Suc split_def advance_def)

lemma sa_keep:
  "fst (self_attention (self_attn example_layer) True (\<lambda>i. True) [[0, 0], [0, 0]]) = [[0, 0], [0, 0]]"
  by (simp add: self_attention_def example_layer_def Let_def zeros_def linear_vec_def dot_def
      head_slice_def softmax_def dropout_vec_def upt_2 numeral_eq_Suc split_def advance_def)

lemma advance_const: "advance n (\<lambda>i. b) = (\<lambda>i. b)"
  by (simp add: advance_def)

lemmas layer_eval = self_attention_def encoder_layer_seq_def example_layer_def Let_def zeros_def
  linear_vec_def dot_def head_slice_def softmax_def dropout_vec_def upt_2 numeral_eq_Suc
  split_def advance_const layer_norm_vec_def vec_add_def relu_def

lemma layer_drop:
  "fst (encoder_layer_seq example_layer True (\<lambda>i. False) [[0, 0], [0, 0]]) = [[0, 0], [0, 0]]"
  by (simp add: layer_eval)

lemma layer_keep:
  "fst (encoder_layer_seq example_layer True (\<lambda>i. True) [[0, 0], [0, 0]]) =
     [[5 / 9 / sqrt (25 / 81 + layer_norm_eps), 0], [5 / 9 / sqrt (25 / 81 + layer_norm_eps), 0]]"
  by (simp add: layer_eval power2_eq_square)

lemma dropout_rows_length [simp]: "length (fst (dropout_rows p tr g X)) = length X"
  by (induction X arbitrary: g) (simp_all add: split_def Let_def)

lemma self_attention_length [simp]: "length (fst (self_attention a tr g X)) = length X"
  by (simp add: self_attention_def Let_def split_def)

lemma encoder_layer_seq_length [simp]: "length (fst (encoder_layer_seq L tr g X)) = length X"
  by (simp add: encoder_layer_seq_def Let_def split_def)

lemma encoder_seq_length [simp]: "length (fst (encoder_seq Ls tr g X)) = length X"
  by (induction Ls arbitrary: g X) (simp_all add: split_def Let_def)

lemma linear_vec_length:
  "linear_shape n_in n_out l \<Longrightarrow> length (linear_vec l x) = n_out"
  by (simp add: linear_shape_def linear_vec_def)

lemma in_features_shape: "linear_shape n_in n_out l \<Longrightarrow> in_features l = n_in"
  by (cases "lin_weight l") (auto simp: linear_shape_def in_features_def)

text \<open>What \<open>forward\<close> does with a batch of feature vectors, whatever the parameters.\<close>

lemma forward_batch:
  assumes c: "constructed input_dim H self" and X: "list_all (\<lambda>r. length r = input_dim) X"
  shows "forward self g (T2 X) =
           (if length X = H
            then Inr (T1 (linear_vec (classifier self)
                   (map (\<lambda>r. sum_list r / real (length r))
                      (fst (encoder_seq (transformer self) (training self) g
                             (map (linear_vec (embedding self)) X))))))
            else Inl RuntimeError)"
proof -
  from c have e: "linear_shape input_dim H (embedding self)" and d: "d_model self = H"
    and k: "linear_shape H 2 (classifier self)"
    by (simp_all add: constructed_def)
  have 1: "linear_apply (embedding self) (T2 X) = Inr (T2 (map (linear_vec (embedding self)) X))"
    using X by (simp add: linear_apply_def in_features_shape[OF e])
  have 2: "list_all (\<lambda>r. length r = d_model self) (map (linear_vec (embedding self)) X)"
    by (simp add: list_all_iff linear_vec_length[OF e] d)
  have 3: "linear_apply (classifier self) (T1 v) =
             (if length v = H then Inr (T1 (linear_vec (classifier self) v)) else Inl RuntimeError)"
    for v by (simp add: linear_apply_def in_features_shape[OF k])
  show ?thesis
    by (simp add: forward_def 1 transformer_encoder_def 2 mean_dim1_def 3)
qed


lemma constructed_example: "constructed 1 2 example_model"
  by (simp add: constructed_def linear_shape_def example_model_def)

text \<open>
  Claim C3 says that \<open>forward\<close> maps a batch of feature vectors (batch by input width) to
  a batch of logit pairs (batch by 2). The source passes the rank-two batch on without a
  sequence dimension, so the encoder takes the batch for one sequence, \<open>mean(dim=1)\<close>
  averages the features away, and the classifier receives one number per example: a batch
  of three examples makes the classifier raise.
\<close>

theorem forward_batch_of_three_raises:
  "forward example_model (\<lambda>i. True) (T2 [[1], [2], [3]]) = Inl RuntimeError"
  using forward_batch[OF constructed_example, of "[[1], [2], [3]]" "\<lambda>i. True"] by simp

text \<open>
  Claim C7 says that \<open>predict_churn\<close> returns one probability per row of prepared client
  features. The source never fills its feature list, so the scaler rejects the empty
  input: on a model, a fitted scaler and one client row of the fitted width the call
  raises \<open>ValueError\<close>.
\<close>

theorem predict_churn_raises:
  "fst (predict_churn example_model \<lparr>scaler_mean = [2], scaler_scale = [1]\<rparr> [[3 :: real]] (\<lambda>i. True))
     = Inl ValueError"
  by (simp add: predict_churn_def transform_def check_array_def)

text \<open>
  Claim C10. \<open>predict_churn\<close> behaves the same on any two \<open>client_data\<close> arguments, of
  whatever types: it never reads the argument. Its result is always the failure of the
  scaler on the empty feature list, with the model left in evaluation mode.
\<close>

theorem predict_churn_ignores_client_data:
  "predict_churn model scaler (client_data :: 'c) g = predict_churn model scaler (client_data' :: 'd) g \<and>
   predict_churn model scaler client_data g = (Inl ValueError, model\<lparr>training := False\<rparr>)"
  by (simp add: predict_churn_def transform_def check_array_def)

section \<open>Dropout and the determinism of \<open>forward\<close>\<close>

text \<open>Outside training mode no layer draws from the generator.\<close>

lemma dropout_vec_eval: "dropout_vec p False g v = (v, g)"
  by (simp add: dropout_vec_def)

lemma dropout_rows_eval: "dropout_rows p False g X = (X, g)"
  by (induction X arbitrary: g) (simp_all add: dropout_vec_eval)

lemma self_attention_eval:
  "fst (self_attention a False g X) = fst (self_attention a False g' X)"
  by (simp add: self_attention_def Let_def dropout_rows_eval)

lemma encoder_layer_seq_eval:
  "fst (encoder_layer_seq L False g X) = fst (encoder_layer_seq L False g' X)"
  using self_attention_eval[of "self_attn L" g X g']
  by (simp add: encoder_layer_seq_def Let_def split_def dropout_rows_eval)

lemma encoder_seq_eval:
  "fst (encoder_seq Ls False g X) = fst (encoder_seq Ls False g' X)"
proof (induction Ls arbitrary: g g' X)
  case Nil
  show ?case by simp
next
  case (Cons L Ls)
  show ?case
    using Cons.IH[of "snd (encoder_layer_seq L False g X)" "fst (encoder_layer_seq L False g' X)"
        "snd (encoder_layer_seq L False g' X)"] encoder_layer_seq_eval[of L g X g']
    by (simp add: split_def Let_def)
qed

lemma encoder_batch_eval:
  "fst (encoder_batch Ls False g Xs) = fst (encoder_batch Ls False g' Xs)"
proof (induction Xs arbitrary: g g')
  case Nil
  show ?case by simp
next
  case (Cons X Xs)
  show ?case
    using Cons.IH[of "snd (encoder_seq Ls False g X)" "snd (encoder_seq Ls False g' X)"]
      encoder_seq_eval[of Ls g X g']
    by (simp add: split_def Let_def)
qed

lemma transformer_encoder_eval:
  "transformer_encoder d Ls False g t = transformer_encoder d Ls False g' t"
  using encoder_seq_eval[of Ls g _ g'] encoder_batch_eval[of Ls g _ g']
  by (simp add: transformer_encoder_def split: tensor.splits)

text \<open>The example model on a batch of two rows, in training mode.\<close>

lemma embedding_example:
  "map (linear_vec (embedding example_model)) [[1], [2]] = [[0, 0], [0, 0]]"
  by (simp add: example_model_def linear_vec_def dot_def)

lemma encoder_example:
  "fst (encoder_seq (transformer example_model) True g [[0, 0], [0, 0]])
     = fst (encoder_layer_seq example_layer True g [[0, 0], [0, 0]])"
  by (simp add: example_model_def split_def)

lemma classifier_example: "linear_vec (classifier example_model) [a, b] = [a, b]"
  by (simp add: example_model_def linear_vec_def dot_def)

lemma forward_example:
  "forward example_model g (T2 [[1], [2]]) =
     Inr (T1 (linear_vec (classifier example_model)
        (map (\<lambda>r. sum_list r / real (length r))
           (fst (encoder_layer_seq example_layer True g [[0, 0], [0, 0]])))))"
proof -
  have t: "training example_model = True" by (simp add: example_model_def)
  have "forward example_model g (T2 [[1], [2]]) =
     Inr (T1 (linear_vec (classifier example_model)
        (map (\<lambda>r. sum_list r / real (length r))
           (fst (encoder_seq (transformer example_model) (training example_model) g
                             (map (linear_vec (embedding example_model)) [[1], [2]]))))))"
    using forward_batch[OF constructed_example, of "[[1], [2]]" g] by simp
  then show ?thesis
    by (simp only: embedding_example t encoder_example)
qed

lemma forward_example_drop:
  "forward example_model drop_all (T2 [[1], [2]]) = Inr (T1 [0, 0])"
  unfolding drop_all_def by (simp add: forward_example layer_drop classifier_example)

lemma forward_example_keep:
  "forward example_model keep_all (T2 [[1], [2]]) =
     Inr (T1 [5 / 9 / sqrt (25 / 81 + layer_norm_eps) / 2,
              5 / 9 / sqrt (25 / 81 + layer_norm_eps) / 2])"
  unfolding keep_all_def by (simp add: forward_example layer_keep classifier_example)

text \<open>
  Claim C9 says that two invocations of \<open>forward\<close> on the same parameters and input give
  the same output. A module is in training mode when it is built and whenever the
  training loop runs its training pass; there the dropout layers draw from the random
  generator, whose state differs from one invocation to the next. On the example model
  and a batch of two rows, an invocation whose draws all keep and one whose draws all
  drop give different outputs.
\<close>

theorem forward_training_counterexample:
  "training example_model \<and>
   forward example_model drop_all (T2 [[1], [2]]) = Inr (T1 [0, 0]) \<and>
   forward example_model keep_all (T2 [[1], [2]]) =
     Inr (T1 [5 / 9 / sqrt (25 / 81 + layer_norm_eps) / 2,
              5 / 9 / sqrt (25 / 81 + layer_norm_eps) / 2]) \<and>
   forward example_model keep_all (T2 [[1], [2]]) \<noteq> forward example_model drop_all (T2 [[1], [2]])"
proof -
  have "training example_model" by (simp add: example_model_def)
  moreover have "forward example_model keep_all (T2 [[1], [2]])
                 \<noteq> forward example_model drop_all (T2 [[1], [2]])"
    by (simp add: forward_example_keep forward_example_drop layer_norm_eps_def)
  ultimately show ?thesis
    using forward_example_keep forward_example_drop by (intro conjI)
qed

text \<open>
  Claim C9, amended. In evaluation mode (after \<open>model.eval()\<close>, as the validation pass and
  \<open>predict_churn\<close> invoke it) the result of \<open>forward\<close>, a tensor or an exception, is the
  same for the same parameters and input, whatever the state of the random generator:
  two invocations with no training step in between give identical outputs.
\<close>

theorem forward_eval_deterministic:
  "forward (self\<lparr>training := False\<rparr>) g x = forward (self\<lparr>training := False\<rparr>) g' x"
  using transformer_encoder_eval[of "d_model self" "transformer self" g _ g']
  by (simp add: forward_def split: sum.splits)

theorem forward_eval_deterministic_witness:
  "forward (example_model\<lparr>training := False\<rparr>) keep_all (T2 [[1], [2]])
     = forward (example_model\<lparr>training := False\<rparr>) drop_all (T2 [[1], [2]])"
  using forward_eval_deterministic[of example_model keep_all "T2 [[1], [2]]" drop_all] .

section \<open>Properties of the training loop\<close>

lemma dict_copy_id [simp]: "dict_copy d = d"
  by (simp add: dict_copy_def split_def)

lemma state_dict_of_id [simp]: "state_dict_of ps = ps"
  by (simp add: state_dict_of_def split_def)


text \<open>The step of one epoch, read off its definition.\<close>

lemma epoch_step_Inr:
  assumes "epoch_step P ps s = Inr s'"
  obtains opt' vs l where
    "train_pass P (opt s) (read_params (store s) ps) = Inr (opt', vs)" and
    "validate P (read_params (write_params ps vs (store s)) ps) = Inr l" and
    "history s' = history s @ [(read_params (write_params ps vs (store s)) ps, l)]" and
    "store s' = write_params ps vs (store s)" and
    "best_val_loss s' = (if improves l (best_val_loss s) then Some l else best_val_loss s)" and
    "best_model s' = (if improves l (best_val_loss s) then Some ps else best_model s)"
  using assms
  by (auto simp: epoch_step_def Let_def split: sum.splits prod.splits if_splits)

lemma epoch_step_invariant:
  assumes "epoch_step P ps s = Inr s'" and "loop_invariant P ps s"
  shows "loop_invariant P ps s' \<and> length (history s') = Suc (length (history s))"
proof -
  from assms(1) obtain opt' vs l where
    v: "validate P (read_params (write_params ps vs (store s)) ps) = Inr l" and
    h: "history s' = history s @ [(read_params (write_params ps vs (store s)) ps, l)]" and
    st: "store s' = write_params ps vs (store s)" and
    b: "best_val_loss s' = (if improves l (best_val_loss s) then Some l else best_val_loss s)" and
    m: "best_model s' = (if improves l (best_val_loss s) then Some ps else best_model s)"
    by (rule epoch_step_Inr)
  show ?thesis
  proof (cases "history s = []")
    case True
    with assms(2) have "best_val_loss s = None" by (simp add: loop_invariant_def)
    then show ?thesis
      using True v h st b m by (simp add: loop_invariant_def improves_def)
  next
    case False
    with assms(2) have bs: "best_val_loss s = Some (Min (snd ` set (history s)))"
      and ms: "best_model s = Some ps"
      and vs: "\<forall>h \<in> set (history s). validate P (fst h) = Inr (snd h)"
      by (simp_all add: loop_invariant_def)
    have fin: "finite (snd ` set (history s))" and ne: "snd ` set (history s) \<noteq> {}"
      using False by simp_all
    have "Min (snd ` set (history s')) = min l (Min (snd ` set (history s)))"
      using Min_insert[OF fin ne, of l] by (simp add: h)
    then have "best_val_loss s' = Some (Min (snd ` set (history s')))"
      by (simp add: b bs improves_def min_def)
    moreover have "best_model s' = Some ps" by (simp add: m ms)
    moreover have "\<forall>h \<in> set (history s'). validate P (fst h) = Inr (snd h)"
      using vs v by (simp add: h)
    moreover have "fst (last (history s')) = read_params (store s') ps"
      by (simp add: h st)
    ultimately show ?thesis by (simp add: loop_invariant_def h)
  qed
qed

lemma epochs_loop_invariant:
  "epochs_loop P ps n s = Inr s' \<Longrightarrow> loop_invariant P ps s \<Longrightarrow>
   loop_invariant P ps s' \<and> length (history s') = length (history s) + n"
proof (induction n arbitrary: s)
  case 0
  then show ?case by simp
next
  case (Suc n)
  from Suc.prems(1) obtain s1 where 1: "epoch_step P ps s = Inr s1"
    and 2: "epochs_loop P ps n s1 = Inr s'"
    by (auto split: sum.splits)
  from epoch_step_invariant[OF 1 Suc.prems(2)] Suc.IH[OF 2] show ?case by simp
qed



lemma initial_invariant:
  "loop_invariant P ps \<lparr>store = st0, opt = opt0, best_val_loss = None, best_model = None, history = []\<rparr>"
  by (simp add: loop_invariant_def)

lemma training_loop_Inr:
  assumes "training_loop P ps st0 opt0 epochs = Inr r"
  obtains s where
    "epochs_loop P ps epochs
       \<lparr>store = st0, opt = opt0, best_val_loss = None, best_model = None, history = []\<rparr> = Inr s" and
    "load_state_dict ps (best_model s) (store s) = Inr (store r)" and
    "history r = history s" and "best_val_loss r = best_val_loss s" and
    "best_model r = best_model s"
  using assms by (auto simp: training_loop_def split: sum.splits)

lemma training_loop_no_epochs: "training_loop P ps st0 opt0 0 = Inl TypeError"
  by (simp add: training_loop_def load_state_dict_def)

lemma training_loop_result:
  assumes "training_loop P ps st0 opt0 epochs = Inr r"
  shows "0 < epochs \<and> length (history r) = epochs \<and>
         best_val_loss r = Some (Min (snd ` set (history r))) \<and>
         (\<forall>h \<in> set (history r). validate P (fst h) = Inr (snd h))"
proof -
  from assms obtain s where
    l: "epochs_loop P ps epochs
       \<lparr>store = st0, opt = opt0, best_val_loss = None, best_model = None, history = []\<rparr> = Inr s"
    and h: "history r = history s" and b: "best_val_loss r = best_val_loss s"
    by (rule training_loop_Inr)
  from epochs_loop_invariant[OF l initial_invariant]
  have i: "loop_invariant P ps s" and n: "length (history s) = epochs" by simp_all
  have "0 < epochs"
    using assms by (cases epochs) (simp_all add: training_loop_no_epochs)
  with n have "history s \<noteq> []" by auto
  with i show ?thesis
    using n \<open>0 < epochs\<close> by (simp add: loop_invariant_def h b)
qed



text \<open>
  The snapshot holds the parameter tensors themselves, so loading it changes nothing:
  the model returned has the parameters of the last epoch.
\<close>

lemma load_params_alias:
  "set qs \<subseteq> set ps \<Longrightarrow> distinct (map fst ps) \<Longrightarrow> load_params qs ps st = Inr st"
proof (induction qs arbitrary: st)
  case Nil
  show ?case by simp
next
  case (Cons q qs)
  obtain name a where q: "q = (name, a)" by (cases q)
  from Cons.prems q have "map_of ps name = Some a" by simp
  moreover have "load_params qs ps st = Inr st"
    using Cons.IH Cons.prems by simp
  ultimately show ?case by (simp add: q)
qed

lemma training_loop_returns_last_epoch:
  assumes "training_loop P ps st0 opt0 epochs = Inr r" and "distinct (map fst ps)"
  shows "read_params (store r) ps = fst (last (history r))"
proof -
  from assms(1) obtain s where
    l: "epochs_loop P ps epochs
       \<lparr>store = st0, opt = opt0, best_val_loss = None, best_model = None, history = []\<rparr> = Inr s"
    and ld: "load_state_dict ps (best_model s) (store s) = Inr (store r)"
    and h: "history r = history s"
    by (rule training_loop_Inr)
  from epochs_loop_invariant[OF l initial_invariant]
  have i: "loop_invariant P ps s" and n: "length (history s) = epochs" by simp_all
  from training_loop_result[OF assms(1)] have "0 < epochs" by simp
  with n have ne: "history s \<noteq> []" by auto
  with i have m: "best_model s = Some ps"
    and f: "fst (last (history s)) = read_params (store s) ps"
    by (simp_all add: loop_invariant_def)
  from ld m load_params_alias[OF subset_refl assms(2), of "store s"]
  have "store r = store s" by (simp add: load_state_dict_def)
  with f h show ?thesis by simp
qed









end
